theory Spec2Isabelle
  imports Main "HOL-Library.Sublist"
begin

section \<open>Values, dates and the host\<close>

text \<open>
  The values a caller can hand to \<^verbatim>\<open>Cookie.set\<close> and receive from \<^verbatim>\<open>Cookie.get\<close>.
  Numbers are the integer-valued ones (\<^typ>\<open>int\<close>), which ECMAScript holds exactly
  up to \<^verbatim>\<open>Number.MAX_SAFE_INTEGER\<close>; fractions, \<^verbatim>\<open>NaN\<close> and the infinities are
  outside this model. Strings are lists of code units below 256.
  \<open>Arr\<close> and \<open>Obj\<close> are arrays and plain objects (properties in enumeration order);
  \<open>Circular\<close> is an object that refers to itself, the value on which
  \<^verbatim>\<open>JSON.stringify\<close> throws.
\<close>

datatype jsvalue =
    Undefined
  | Null
  | Bool bool
  | Num int
  | Str string
  | Arr "jsvalue list"
  | Obj "(string \<times> jsvalue) list"
  | Circular

text \<open>
  A \<^verbatim>\<open>Date\<close> object holds a time value in milliseconds or is invalid; the
  constructor clips the time value to the range ECMAScript allows.
\<close>

datatype date = Date int | Invalid_Date

definition new_Date :: "int \<Rightarrow> date" where
  "new_Date t = (if \<bar>t\<bar> \<le> 8640000000000000 then Date t else Invalid_Date)"

text \<open>
  Decimal text of an integer-valued number (\<^verbatim>\<open>Number.prototype.toString\<close>, which
  writes every digit of a safe integer). \<open>digit_char\<close> serves hexadecimal as well.
\<close>

definition digit_char :: "nat \<Rightarrow> char" where
  "digit_char d = ''0123456789abcdef'' ! d"

fun digits :: "nat \<Rightarrow> string" where
  "digits n = (if n < 10 then [digit_char n] else digits (n div 10) @ [digit_char (n mod 10)])"

declare digits.simps [simp del]

definition Number_toString :: "int \<Rightarrow> string" where
  "Number_toString n = (if n < 0 then CHR ''-'' # digits (nat (- n)) else digits (nat n))"

text \<open>
  \<^verbatim>\<open>Date.prototype.toUTCString\<close> of a valid date, as ECMAScript fixes it:
  \<^verbatim>\<open>Thu, 01 Jan 1970 00:00:00 GMT\<close>. The civil date is computed from the day number
  counted from 1 March 0000, in eras of 400 years.
\<close>

definition pad :: "nat \<Rightarrow> nat \<Rightarrow> string" where
  "pad k n = replicate (k - length (digits n)) CHR ''0'' @ digits n"

definition civil_of_month :: "int \<Rightarrow> int \<Rightarrow> int \<Rightarrow> int \<times> nat \<times> nat" where
  "civil_of_month y doy mp =
     (if mp < 10 then y else y + 1,
      nat (if mp < 10 then mp + 3 else mp - 9),
      nat (doy - (153 * mp + 2) div 5 + 1))"

definition civil_of_year :: "int \<Rightarrow> int \<Rightarrow> int \<Rightarrow> int \<times> nat \<times> nat" where
  "civil_of_year era doe yoe =
     civil_of_month (yoe + era * 400) (doe - (365 * yoe + yoe div 4 - yoe div 100))
       ((5 * (doe - (365 * yoe + yoe div 4 - yoe div 100)) + 2) div 153)"

definition civil_of_era :: "int \<Rightarrow> int \<Rightarrow> int \<times> nat \<times> nat" where
  "civil_of_era era doe =
     civil_of_year era doe ((doe - doe div 1460 + doe div 36524 - doe div 146096) div 365)"

definition YearMonthDay :: "int \<Rightarrow> int \<times> nat \<times> nat" where
  "YearMonthDay day = civil_of_era ((day + 719468) div 146097) ((day + 719468) mod 146097)"

definition utc_text :: "int \<Rightarrow> int \<times> nat \<times> nat \<Rightarrow> nat \<Rightarrow> string" where
  "utc_text day ymd ms =
     [''Sun'', ''Mon'', ''Tue'', ''Wed'', ''Thu'', ''Fri'', ''Sat''] ! nat ((day + 4) mod 7)
     @ '', '' @ pad 2 (snd (snd ymd)) @ '' ''
     @ [''Jan'', ''Feb'', ''Mar'', ''Apr'', ''May'', ''Jun'',
        ''Jul'', ''Aug'', ''Sep'', ''Oct'', ''Nov'', ''Dec''] ! (fst (snd ymd) - 1)
     @ '' '' @ (if fst ymd < 0 then ''-'' else []) @ pad 4 (nat \<bar>fst ymd\<bar>)
     @ '' '' @ pad 2 (ms div 3600000) @ '':'' @ pad 2 (ms div 60000 mod 60)
     @ '':'' @ pad 2 (ms div 1000 mod 60) @ '' GMT''"

definition toUTCString :: "date \<Rightarrow> string" where
  "toUTCString d =
     (case d of
        Date t \<Rightarrow> utc_text (t div 86400000) (YearMonthDay (t div 86400000))
                   (nat (t mod 86400000))
      | Invalid_Date \<Rightarrow> ''Invalid Date'')"

text \<open>
  \<^verbatim>\<open>new Date(string)\<close> reads formats that differ from host to host; it is a
  parameter of the model.
\<close>

record host =
  Date_parse :: "string \<Rightarrow> date"

text \<open>
  What a call can observe of its surroundings: the static field \<^verbatim>\<open>Cookie.#ttl\<close>, the
  clock read by \<^verbatim>\<open>Date.now()\<close>, and the text that reading \<^verbatim>\<open>document.cookie\<close>
  returns. Every method reads \<^verbatim>\<open>document.cookie\<close> before it assigns to it, so one text
  per call is enough; the assignments are returned by the methods as a list.
\<close>

record world =
  static_ttl :: "int option"
  now :: int
  cookie :: string

section \<open>Attributes\<close>

datatype same_site = Strict | Lax | SameSite_None

fun same_site_text :: "same_site \<Rightarrow> string" where
  "same_site_text Strict = ''Strict''"
| "same_site_text Lax = ''Lax''"
| "same_site_text SameSite_None = ''None''"

datatype expires_in = Date_object date | Date_string string

text \<open>
  \<^verbatim>\<open>CookieAttributes\<close>. An absent property is \<open>None\<close>; for \<open>ttl\<close>, \<open>None\<close> stands for
  both \<^verbatim>\<open>undefined\<close> and \<^verbatim>\<open>null\<close>, which the code never tells apart.
\<close>

record attributes =
  ttl :: "int option"
  expires :: "expires_in option"
  path :: "string option"
  domain :: "string option"
  sameSite :: "same_site option"
  secure :: "bool option"

definition no_attributes :: attributes where
  "no_attributes = \<lparr>ttl = None, expires = None, path = None, domain = None,
     sameSite = None, secure = None\<rparr>"


section \<open>\<^verbatim>\<open>JSON.stringify\<close>\<close>

definition Boolean_toString :: "bool \<Rightarrow> string" where
  "Boolean_toString b = (if b then ''true'' else ''false'')"

text \<open>
  \<^verbatim>\<open>QuoteJSONString\<close>: the double quote and the backslash are escaped, a control
  character is written by its short escape or as \<^verbatim>\<open>\u00XX\<close>.
\<close>

definition dquote :: char where
  "dquote = CHR 0x22"

definition backslash :: char where
  "backslash = CHR 0x5C"

definition quote_char :: "char \<Rightarrow> string" where
  "quote_char c =
     (if c = dquote then [backslash, dquote]
      else if c = backslash then [backslash, backslash]
      else if c = CHR 0x08 then [backslash, CHR ''b'']
      else if c = CHR 0x0C then [backslash, CHR ''f'']
      else if c = CHR 0x0A then [backslash, CHR ''n'']
      else if c = CHR 0x0D then [backslash, CHR ''r'']
      else if c = CHR 0x09 then [backslash, CHR ''t'']
      else if (of_char c :: nat) < 32
        then [backslash, CHR ''u'', CHR ''0'', CHR ''0'',
              digit_char (of_char c div 16), digit_char (of_char c mod 16)]
      else [c])"

definition QuoteJSONString :: "string \<Rightarrow> string" where
  "QuoteJSONString s = dquote # concat (map quote_char s) @ [dquote]"

fun join_comma :: "string list \<Rightarrow> string" where
  "join_comma [] = []"
| "join_comma [t] = t"
| "join_comma (t # u # ts) = t @ '','' @ join_comma (u # ts)"

text \<open>
  The result of \<^verbatim>\<open>JSON.stringify\<close>: a text, \<^verbatim>\<open>undefined\<close>, or a thrown
  \<^verbatim>\<open>TypeError\<close>. In an array \<^verbatim>\<open>undefined\<close> is written \<^verbatim>\<open>null\<close>; in an object
  a property whose value is \<^verbatim>\<open>undefined\<close> is left out.
\<close>

datatype ser = Text string | Undef | Throws

fun SerializeJSONProperty :: "jsvalue \<Rightarrow> ser"
  and SerializeJSONArray :: "jsvalue list \<Rightarrow> string list option"
  and SerializeJSONObject :: "(string \<times> jsvalue) list \<Rightarrow> string list option"
where
  "SerializeJSONProperty Undefined = Undef"
| "SerializeJSONProperty Null = Text ''null''"
| "SerializeJSONProperty (Bool b) = Text (Boolean_toString b)"
| "SerializeJSONProperty (Num n) = Text (Number_toString n)"
| "SerializeJSONProperty (Str s) = Text (QuoteJSONString s)"
| "SerializeJSONProperty (Arr xs) =
     (case SerializeJSONArray xs of
        None \<Rightarrow> Throws
      | Some ts \<Rightarrow> Text (''['' @ join_comma ts @ '']''))"
| "SerializeJSONProperty (Obj ps) =
     (case SerializeJSONObject ps of
        None \<Rightarrow> Throws
      | Some ts \<Rightarrow> Text (''{'' @ join_comma ts @ ''}''))"
| "SerializeJSONProperty Circular = Throws"
| "SerializeJSONArray [] = Some []"
| "SerializeJSONArray (x # xs) =
     (case SerializeJSONProperty x of
        Throws \<Rightarrow> None
      | Undef \<Rightarrow> map_option ((#) ''null'') (SerializeJSONArray xs)
      | Text t \<Rightarrow> map_option ((#) t) (SerializeJSONArray xs))"
| "SerializeJSONObject [] = Some []"
| "SerializeJSONObject ((k, v) # ps) =
     (case SerializeJSONProperty v of
        Throws \<Rightarrow> None
      | Undef \<Rightarrow> SerializeJSONObject ps
      | Text t \<Rightarrow> map_option ((#) (QuoteJSONString k @ '':'' @ t)) (SerializeJSONObject ps))"

definition JSON_stringify :: "jsvalue \<Rightarrow> ser" where
  "JSON_stringify v = SerializeJSONProperty v"

section \<open>\<^verbatim>\<open>JSON.parse\<close>\<close>

text \<open>
  A recursive-descent reader of JSON text. It gives the value read, \<open>SyntaxError\<close>
  when the text is not JSON, and \<open>Outside\<close> when it meets what the model of values
  does not hold: a numeral with a fraction or an exponent part, an integer beyond
  \<^verbatim>\<open>Number.MAX_SAFE_INTEGER\<close>, an escape \<^verbatim>\<open>\uXXXX\<close> of a code unit from 256 on, or
  a property name made of digits (the host lists such properties first, in numeric
  order). Nothing is claimed about a text that reads as \<open>Outside\<close>.
\<close>

datatype 'a reading = Read 'a | SyntaxError | Outside

definition is_ws :: "char \<Rightarrow> bool" where
  "is_ws c = (c = CHR '' '' \<or> c = CHR 0x09 \<or> c = CHR 0x0A \<or> c = CHR 0x0D)"

definition skip_ws :: "string \<Rightarrow> string" where
  "skip_ws s = dropWhile is_ws s"

definition is_digit :: "char \<Rightarrow> bool" where
  "is_digit c = (48 \<le> (of_char c :: nat) \<and> (of_char c :: nat) \<le> 57)"

definition digit_val :: "char \<Rightarrow> nat" where
  "digit_val c = of_char c - 48"

definition hex_val :: "char \<Rightarrow> nat option" where
  "hex_val c =
     (if is_digit c then Some (of_char c - 48)
      else if 97 \<le> (of_char c :: nat) \<and> (of_char c :: nat) \<le> 102 then Some (of_char c - 87)
      else if 65 \<le> (of_char c :: nat) \<and> (of_char c :: nat) \<le> 70 then Some (of_char c - 55)
      else None)"

definition hex4 :: "char \<Rightarrow> char \<Rightarrow> char \<Rightarrow> char \<Rightarrow> nat option" where
  "hex4 a b c d =
     (case (hex_val a, hex_val b, hex_val c, hex_val d) of
        (Some x, Some y, Some z, Some u) \<Rightarrow> Some (((x * 16 + y) * 16 + z) * 16 + u)
      | _ \<Rightarrow> None)"

definition unescape :: "char \<Rightarrow> char option" where
  "unescape e =
     (if e = dquote then Some dquote
      else if e = backslash then Some backslash
      else if e = CHR ''/'' then Some CHR ''/''
      else if e = CHR ''b'' then Some (CHR 0x08)
      else if e = CHR ''f'' then Some (CHR 0x0C)
      else if e = CHR ''n'' then Some (CHR 0x0A)
      else if e = CHR ''r'' then Some (CHR 0x0D)
      else if e = CHR ''t'' then Some (CHR 0x09)
      else None)"

text \<open>The characters of a string after its opening quote, up to the closing one.\<close>

fun parse_chars :: "string \<Rightarrow> (string \<times> string) reading" where
  "parse_chars [] = SyntaxError"
| "parse_chars (c # cs) =
     (if c = dquote then Read ([], cs)
      else if c = backslash then
        (case cs of
           [] \<Rightarrow> SyntaxError
         | e # cs1 \<Rightarrow>
             if e = CHR ''u'' then
               (case cs1 of
                  x # y # z # u # cs2 \<Rightarrow>
                    (case hex4 x y z u of
                       None \<Rightarrow> SyntaxError
                     | Some n \<Rightarrow>
                         if n < 256 then map_reading (apfst ((#) (char_of n))) (parse_chars cs2)
                         else Outside)
                | _ \<Rightarrow> SyntaxError)
             else
               (case unescape e of
                  None \<Rightarrow> SyntaxError
                | Some ch \<Rightarrow> map_reading (apfst ((#) ch)) (parse_chars cs1)))
      else if (of_char c :: nat) < 32 then SyntaxError
      else map_reading (apfst ((#) c)) (parse_chars cs))"

definition MAX_SAFE_INTEGER :: int where
  "MAX_SAFE_INTEGER = 9007199254740991"

definition digits_value :: "string \<Rightarrow> int" where
  "digits_value ds = foldl (\<lambda>a c. 10 * a + int (digit_val c)) 0 ds"

definition parse_nat :: "string \<Rightarrow> (int \<times> string) reading" where
  "parse_nat s =
     (let ds = takeWhile is_digit s; r = dropWhile is_digit s
      in if ds = [] \<or> (hd ds = CHR ''0'' \<and> length ds > 1) then SyntaxError
         else if r \<noteq> [] \<and> (hd r = CHR ''.'' \<or> hd r = CHR ''e'' \<or> hd r = CHR ''E'')
           then Outside
         else if MAX_SAFE_INTEGER < digits_value ds then Outside
         else Read (digits_value ds, r))"

definition parse_number :: "string \<Rightarrow> (jsvalue \<times> string) reading" where
  "parse_number s =
     (case s of
        [] \<Rightarrow> SyntaxError
      | c # r \<Rightarrow>
          if c = CHR ''-'' then map_reading (apfst (\<lambda>n. Num (- n))) (parse_nat r)
          else map_reading (apfst Num) (parse_nat s))"

definition parse_literal :: "string \<Rightarrow> (jsvalue \<times> string) reading" where
  "parse_literal s =
     (if prefix ''true'' s then Read (Bool True, drop 4 s)
      else if prefix ''false'' s then Read (Bool False, drop 5 s)
      else if prefix ''null'' s then Read (Null, drop 4 s)
      else SyntaxError)"

text \<open>
  A property written twice keeps its first place and takes its last value.
\<close>

fun CreateDataProperty :: "string \<Rightarrow> jsvalue \<Rightarrow> (string \<times> jsvalue) list \<Rightarrow> (string \<times> jsvalue) list" where
  "CreateDataProperty k v [] = [(k, v)]"
| "CreateDataProperty k v (p # ps) =
     (if fst p = k then (k, v) # ps else p # CreateDataProperty k v ps)"

definition object_of :: "(string \<times> jsvalue) list \<Rightarrow> jsvalue" where
  "object_of ps = Obj (foldl (\<lambda>obj p. CreateDataProperty (fst p) (snd p) obj) [] ps)"

definition index_like :: "string \<Rightarrow> bool" where
  "index_like k = (k \<noteq> [] \<and> list_all is_digit k)"

text \<open>
  The reader proper. The first argument bounds the depth of the calls; \<open>JSON_parse\<close>
  starts it above the length of the text, and a reader that used it up would answer
  \<open>Outside\<close>. \<open>parse_elements\<close> reads the elements of an array after the opening
  bracket, up to the closing one, \<open>parse_members\<close> the members of an object.
\<close>

fun parse_value :: "nat \<Rightarrow> string \<Rightarrow> (jsvalue \<times> string) reading"
  and parse_elements :: "nat \<Rightarrow> string \<Rightarrow> (jsvalue list \<times> string) reading"
  and parse_members :: "nat \<Rightarrow> string \<Rightarrow> ((string \<times> jsvalue) list \<times> string) reading"
where
  "parse_value 0 s = Outside"
| "parse_value (Suc n) s =
     (case skip_ws s of
        [] \<Rightarrow> SyntaxError
      | c # r \<Rightarrow>
          if c = CHR ''['' then
            (if skip_ws r \<noteq> [] \<and> hd (skip_ws r) = CHR '']''
             then Read (Arr [], tl (skip_ws r))
             else map_reading (apfst Arr) (parse_elements n r))
          else if c = CHR ''{'' then
            (if skip_ws r \<noteq> [] \<and> hd (skip_ws r) = CHR ''}''
             then Read (Obj [], tl (skip_ws r))
             else map_reading (apfst object_of) (parse_members n r))
          else if c = dquote then map_reading (apfst Str) (parse_chars r)
          else if c = CHR ''-'' \<or> is_digit c then parse_number (c # r)
          else parse_literal (c # r))"
| "parse_elements 0 s = Outside"
| "parse_elements (Suc n) s =
     (case parse_value n s of
        SyntaxError \<Rightarrow> SyntaxError
      | Outside \<Rightarrow> Outside
      | Read (v, r) \<Rightarrow>
          (case skip_ws r of
             [] \<Rightarrow> SyntaxError
           | c # r1 \<Rightarrow>
               if c = CHR '','' then map_reading (apfst ((#) v)) (parse_elements n r1)
               else if c = CHR '']'' then Read ([v], r1)
               else SyntaxError))"
| "parse_members 0 s = Outside"
| "parse_members (Suc n) s =
     (case skip_ws s of
        [] \<Rightarrow> SyntaxError
      | q # r \<Rightarrow>
          if q \<noteq> dquote then SyntaxError
          else
            (case parse_chars r of
               SyntaxError \<Rightarrow> SyntaxError
             | Outside \<Rightarrow> Outside
             | Read (k, r1) \<Rightarrow>
                 if index_like k then Outside
                 else
                   (case skip_ws r1 of
                      [] \<Rightarrow> SyntaxError
                    | c # r2 \<Rightarrow>
                        if c \<noteq> CHR '':'' then SyntaxError
                        else
                          (case parse_value n r2 of
                             SyntaxError \<Rightarrow> SyntaxError
                           | Outside \<Rightarrow> Outside
                           | Read (v, r3) \<Rightarrow>
                               (case skip_ws r3 of
                                  [] \<Rightarrow> SyntaxError
                                | d # r4 \<Rightarrow>
                                    if d = CHR '','' then
                                      map_reading (apfst ((#) (k, v))) (parse_members n r4)
                                    else if d = CHR ''}'' then Read ([(k, v)], r4)
                                    else SyntaxError)))))"

text \<open>\<^verbatim>\<open>JSON.parse\<close> reads one value, with nothing but white space after it.\<close>

definition JSON_parse :: "string \<Rightarrow> jsvalue reading" where
  "JSON_parse s =
     (case parse_value (Suc (length s)) s of
        SyntaxError \<Rightarrow> SyntaxError
      | Outside \<Rightarrow> Outside
      | Read (v, r) \<Rightarrow> if skip_ws r = [] then Read v else SyntaxError)"

section \<open>The class \<^verbatim>\<open>Cookie\<close>\<close>

subsection \<open>\<^verbatim>\<open>#stringify\<close> and \<^verbatim>\<open>#expires\<close>\<close>

text \<open>
  \<^verbatim>\<open>#stringify\<close>: empty for \<^verbatim>\<open>null\<close> and \<^verbatim>\<open>undefined\<close>, \<^verbatim>\<open>toString()\<close> for a
  string, number or boolean, \<^verbatim>\<open>JSON.stringify\<close> for the rest, and empty when that
  throws. (\<^verbatim>\<open>JSON.stringify\<close> returns \<^verbatim>\<open>undefined\<close> for none of the remaining
  values; the template literal of \<^verbatim>\<open>set\<close> would print it as such.)
\<close>

fun Cookie_stringify :: "jsvalue \<Rightarrow> string" where
  "Cookie_stringify Null = []"
| "Cookie_stringify Undefined = []"
| "Cookie_stringify (Str s) = s"
| "Cookie_stringify (Num n) = Number_toString n"
| "Cookie_stringify (Bool b) = Boolean_toString b"
| "Cookie_stringify v =
     (case JSON_stringify v of Text t \<Rightarrow> t | Undef \<Rightarrow> ''undefined'' | Throws \<Rightarrow> [])"

text \<open>
  \<^verbatim>\<open>#expires\<close>: nothing for an absent or empty argument, a \<^verbatim>\<open>Date\<close> as it is, a
  string through \<^verbatim>\<open>new Date\<close>, and nothing when the string does not parse.
\<close>

fun Cookie_expires :: "host \<Rightarrow> expires_in option \<Rightarrow> date option" where
  "Cookie_expires h None = None"
| "Cookie_expires h (Some (Date_object d)) = Some d"
| "Cookie_expires h (Some (Date_string s)) =
     (if s = [] then None
      else (case Date_parse h s of Invalid_Date \<Rightarrow> None | Date t \<Rightarrow> Some (Date t)))"

subsection \<open>\<^verbatim>\<open>ttl\<close> and \<^verbatim>\<open>set\<close>\<close>

definition Cookie_ttl :: "int option \<Rightarrow> world \<Rightarrow> world" where
  "Cookie_ttl v w = w\<lparr>static_ttl := v\<rparr>"

datatype error = Error string

definition secure_message :: string where
  "secure_message =
     ''The '' @ [dquote] @ ''secure'' @ [dquote] @ '' attribute must be set to '' @ [dquote]
     @ ''true'' @ [dquote] @ '' if '' @ [dquote] @ ''sameSite'' @ [dquote] @ '' is set to ''
     @ [dquote] @ ''None'' @ [dquote] @ ''.''"

text \<open>
  What a call of \<^verbatim>\<open>set\<close> leaves behind: the string it returns or the error it throws,
  the caller's attributes object as the call has changed it, and the strings assigned
  to \<^verbatim>\<open>document.cookie\<close>.
\<close>

record set_result =
  outcome :: "error + string"
  attributes_after :: attributes
  assigned :: "string list"

definition truthy_string :: "string option \<Rightarrow> bool" where
  "truthy_string s = (case s of None \<Rightarrow> False | Some t \<Rightarrow> t \<noteq> [])"

definition truthy_number :: "int option \<Rightarrow> bool" where
  "truthy_number n = (case n of None \<Rightarrow> False | Some t \<Rightarrow> t \<noteq> 0)"

text \<open>
  The string \<^verbatim>\<open>cookie\<close> of \<^verbatim>\<open>set\<close> is built in three stretches: the key with
  its value (\<open>key_value\<close>), the \<^verbatim>\<open>expires\<close> segment (\<open>expires_segment\<close>), and the
  segments for \<^verbatim>\<open>path\<close>, \<^verbatim>\<open>domain\<close>, \<^verbatim>\<open>SameSite\<close> and \<^verbatim>\<open>Secure\<close>, each
  appended when its condition is truthy (\<open>scope_segments\<close>).
\<close>

definition key_value :: "string \<Rightarrow> jsvalue \<Rightarrow> string" where
  "key_value key val =
     (if val = Null \<or> val = Undefined then key else key @ ''='' @ Cookie_stringify val)"

definition expires_segment :: "date option \<Rightarrow> string" where
  "expires_segment e = (case e of Some d \<Rightarrow> ''; expires='' @ toUTCString d | None \<Rightarrow> [])"

definition scope_segments :: "attributes \<Rightarrow> string" where
  "scope_segments a =
     (if truthy_string (path a) then ''; path='' @ the (path a) else [])
     @ (if truthy_string (domain a) then ''; domain='' @ the (domain a) else [])
     @ (case sameSite a of Some p \<Rightarrow> ''; SameSite='' @ same_site_text p | None \<Rightarrow> [])
     @ (if sameSite a = Some SameSite_None \<or> secure a = Some True then ''; Secure'' else [])"

text \<open>
  The first statements of \<^verbatim>\<open>set\<close> after the key and value: \<^verbatim>\<open>attributes.ttl\<close>
  falls back to \<^verbatim>\<open>Cookie.#ttl\<close> when it is absent, \<^verbatim>\<open>attributes.expires\<close> is
  normalised, and a truthy \<^verbatim>\<open>ttl\<close> replaces it by the clock plus that many seconds.
\<close>

definition resolved_ttl :: "world \<Rightarrow> attributes \<Rightarrow> int option" where
  "resolved_ttl w a = (case ttl a of None \<Rightarrow> static_ttl w | Some t \<Rightarrow> Some t)"

definition resolved_expires :: "host \<Rightarrow> world \<Rightarrow> attributes \<Rightarrow> date option" where
  "resolved_expires h w a =
     (if truthy_number (resolved_ttl w a)
      then Some (new_Date (now w + the (resolved_ttl w a) * 1000))
      else Cookie_expires h (expires a))"

definition Cookie_set :: "host \<Rightarrow> world \<Rightarrow> string \<Rightarrow> jsvalue \<Rightarrow> attributes \<Rightarrow> set_result" where
  "Cookie_set h w key val a =
     (let a' = a\<lparr>ttl := resolved_ttl w a,
                 expires := map_option Date_object (resolved_expires h w a)\<rparr>;
          cookie = key_value key val @ expires_segment (resolved_expires h w a)
                   @ scope_segments a
      in if sameSite a = Some SameSite_None \<and> secure a \<noteq> Some True
         then \<lparr>outcome = Inl (Error secure_message), attributes_after = a', assigned = []\<rparr>
         else \<lparr>outcome = Inr cookie, attributes_after = a', assigned = [cookie]\<rparr>)"

subsection \<open>\<^verbatim>\<open>get\<close>\<close>

text \<open>
  The pattern of \<^verbatim>\<open>get\<close> is \<^verbatim>\<open>(^|;\s*)KEY=([^;]*)\<close>, where the key has had its
  special characters escaped and so stands for itself. \<open>match_key\<close> matches
  \<^verbatim>\<open>KEY=([^;]*)\<close> at the head of a text and gives the second group; \<open>backtrack\<close>
  tries it behind the white space after a semicolon, the longest run first;
  \<open>exec_cookie\<close> is \<^verbatim>\<open>exec\<close>, which takes the leftmost match. \<open>is_space\<close> is the
  class \<^verbatim>\<open>\s\<close> on code units below 256.
\<close>

definition is_space :: "char \<Rightarrow> bool" where
  "is_space c = (c = CHR '' '' \<or> c = CHR 0x09 \<or> c = CHR 0x0A \<or> c = CHR 0x0B
     \<or> c = CHR 0x0C \<or> c = CHR 0x0D \<or> c = CHR 0xA0)"

definition match_key :: "string \<Rightarrow> string \<Rightarrow> string option" where
  "match_key key s =
     (if prefix (key @ ''='') s
      then Some (takeWhile (\<lambda>c. c \<noteq> CHR '';'') (drop (length key + 1) s))
      else None)"

fun backtrack :: "string \<Rightarrow> nat \<Rightarrow> string \<Rightarrow> string option" where
  "backtrack key 0 s = match_key key s"
| "backtrack key (Suc k) s =
     (case match_key key (drop (Suc k) s) of
        Some v \<Rightarrow> Some v
      | None \<Rightarrow> backtrack key k s)"

fun scan :: "string \<Rightarrow> string \<Rightarrow> string option" where
  "scan key [] = None"
| "scan key (c # s) =
     (case (if c = CHR '';'' then backtrack key (length (takeWhile is_space s)) s else None) of
        Some v \<Rightarrow> Some v
      | None \<Rightarrow> scan key s)"

definition exec_cookie :: "string \<Rightarrow> string \<Rightarrow> string option" where
  "exec_cookie key s = (case match_key key s of Some v \<Rightarrow> Some v | None \<Rightarrow> scan key s)"

text \<open>
  The fallback of \<^verbatim>\<open>get\<close> is a value or a function, given here by what it returns.
\<close>

datatype fallback = Value jsvalue | Function jsvalue

definition resolve_fallback :: "fallback \<Rightarrow> jsvalue" where
  "resolve_fallback fb =
     (case fb of
        Function r \<Rightarrow> r
      | Value v \<Rightarrow> if v = Null \<or> v = Undefined then Null else v)"

text \<open>
  The end of \<^verbatim>\<open>get\<close>: \<^verbatim>\<open>JSON.parse\<close> of the raw text, and the raw text itself when
  that throws. The result is \<open>None\<close> when the raw text reads as \<open>Outside\<close>: the
  value \<^verbatim>\<open>get\<close> returns is then not one of the model, and so for the methods
  that call \<^verbatim>\<open>get\<close>.
\<close>

definition decode :: "string \<Rightarrow> jsvalue option" where
  "decode c =
     (case JSON_parse c of Read v \<Rightarrow> Some v | SyntaxError \<Rightarrow> Some (Str c) | Outside \<Rightarrow> None)"

definition Cookie_get :: "world \<Rightarrow> string \<Rightarrow> fallback \<Rightarrow> jsvalue option" where
  "Cookie_get w key fb =
     (case exec_cookie key (cookie w) of
        None \<Rightarrow> Some (resolve_fallback fb)
      | Some c \<Rightarrow> decode c)"

subsection \<open>\<^verbatim>\<open>remember\<close>, \<^verbatim>\<open>remove\<close>, \<^verbatim>\<open>has\<close> and \<^verbatim>\<open>touch\<close>\<close>

text \<open>
  The callback of \<^verbatim>\<open>remember\<close> is a function of the caller, and may change the
  caller's state \<^typ>\<open>'s\<close>: the model threads that state through the call, so that
  the final state tells how often the callback ran.
\<close>

record remember_result =
  returned :: "error + jsvalue"
  stored :: "string list"

definition Cookie_remember ::
  "host \<Rightarrow> world \<Rightarrow> string \<Rightarrow> ('s \<Rightarrow> jsvalue \<times> 's) \<Rightarrow> attributes \<Rightarrow> 's
     \<Rightarrow> (remember_result \<times> 's) option" where
  "Cookie_remember h w key callback a s =
     (case Cookie_get w key (Value Null) of
        None \<Rightarrow> None
      | Some found \<Rightarrow>
          Some (if found = Null
                then (let (v, s') = callback s; r = Cookie_set h w key v a
                      in (\<lparr>returned = map_sum id Str (outcome r), stored = assigned r\<rparr>, s'))
                else (\<lparr>returned = Inr found, stored = []\<rparr>, s)))"

text \<open>
  \<^verbatim>\<open>remove\<close> and \<^verbatim>\<open>touch\<close> take attributes of the type
  \<^verbatim>\<open>Pick<CookieAttributes, 'path'>\<close>: the argument is the \<open>path\<close> property. Both
  return nothing; the model returns the strings assigned to \<^verbatim>\<open>document.cookie\<close>.
\<close>

definition Cookie_remove :: "host \<Rightarrow> world \<Rightarrow> string \<Rightarrow> string option \<Rightarrow> string list" where
  "Cookie_remove h w key p =
     assigned (Cookie_set h w key (Str [])
       (no_attributes\<lparr>path := p, expires := Some (Date_object (new_Date 0))\<rparr>))"

fun ToBoolean :: "jsvalue \<Rightarrow> bool" where
  "ToBoolean Undefined = False"
| "ToBoolean Null = False"
| "ToBoolean (Bool b) = b"
| "ToBoolean (Num n) = (n \<noteq> 0)"
| "ToBoolean (Str s) = (s \<noteq> [])"
| "ToBoolean v = True"

definition Cookie_has :: "world \<Rightarrow> string \<Rightarrow> bool option" where
  "Cookie_has w key = map_option ToBoolean (Cookie_get w key (Value Null))"

definition Cookie_touch ::
  "host \<Rightarrow> world \<Rightarrow> string \<Rightarrow> int option \<Rightarrow> string option \<Rightarrow> string list option" where
  "Cookie_touch h w key t p =
     (case Cookie_get w key (Value Null) of
        None \<Rightarrow> None
      | Some found \<Rightarrow>
          Some (if found = Null then []
                else assigned (Cookie_set h w key found
                       (no_attributes\<lparr>ttl := (case t of None \<Rightarrow> static_ttl w | Some x \<Rightarrow> Some x),
                          path := p\<rparr>))))"


section \<open>JSON values\<close>




section \<open>A sample host\<close>

text \<open>
  A host whose \<^verbatim>\<open>Date\<close> constructor reads the format of \<^verbatim>\<open>toISOString\<close>,
  \<^verbatim>\<open>YYYY-MM-DDTHH:mm:ss.sssZ\<close>, and nothing else. It serves the examples.
\<close>

definition days_of_era :: "int \<Rightarrow> int \<Rightarrow> int \<Rightarrow> int" where
  "days_of_era y mp d =
     (y div 400) * 146097
     + ((y mod 400) * 365 + (y mod 400) div 4 - (y mod 400) div 100 + ((153 * mp + 2) div 5 + d - 1))
     - 719468"

definition days_from_civil :: "int \<Rightarrow> int \<Rightarrow> int \<Rightarrow> int" where
  "days_from_civil y m d = days_of_era (if m \<le> 2 then y - 1 else y) ((m + 9) mod 12) d"

definition read_digits :: "string \<Rightarrow> nat option" where
  "read_digits s =
     (if s \<noteq> [] \<and> list_all is_digit s
      then Some (nat (digits_value s)) else None)"

definition iso_time :: "nat \<Rightarrow> nat \<Rightarrow> nat \<Rightarrow> nat \<Rightarrow> nat \<Rightarrow> nat \<Rightarrow> nat \<Rightarrow> date" where
  "iso_time y m d hh mm ss ms =
     (if 1 \<le> m \<and> m \<le> 12 \<and> 1 \<le> d \<and> hh \<le> 23 \<and> mm \<le> 59 \<and> ss \<le> 59
         \<and> YearMonthDay (days_from_civil (int y) (int m) (int d)) = (int y, m, d)
      then new_Date (days_from_civil (int y) (int m) (int d) * 86400000
             + int (((hh * 60 + mm) * 60 + ss) * 1000 + ms))
      else Invalid_Date)"

definition Date_parse_iso :: "string \<Rightarrow> date" where
  "Date_parse_iso s =
     (if length s = 24 \<and> s ! 4 = CHR ''-'' \<and> s ! 7 = CHR ''-'' \<and> s ! 10 = CHR ''T''
         \<and> s ! 13 = CHR '':'' \<and> s ! 16 = CHR '':'' \<and> s ! 19 = CHR ''.'' \<and> s ! 23 = CHR ''Z''
      then (case (read_digits (take 4 s), read_digits (take 2 (drop 5 s)),
                  read_digits (take 2 (drop 8 s)), read_digits (take 2 (drop 11 s)),
                  read_digits (take 2 (drop 14 s)), read_digits (take 2 (drop 17 s)),
                  read_digits (take 3 (drop 20 s))) of
              (Some y, Some m, Some d, Some hh, Some mm, Some ss, Some ms) \<Rightarrow>
                iso_time y m d hh mm ss ms
            | _ \<Rightarrow> Invalid_Date)
      else Invalid_Date)"

definition iso_host :: host where
  "iso_host = \<lparr>Date_parse = Date_parse_iso\<rparr>"

text \<open>A world with no default time-to-live, the clock at 1000 s, and a few cookies.\<close>

definition sample_world :: world where
  "sample_world = \<lparr>static_ttl = None, now = 1000000, cookie = ''a=1; k=; b=false; n=null''\<rparr>"

text \<open>A callback that returns the given value and counts its calls in the caller's state.\<close>

definition count_calls :: "jsvalue \<Rightarrow> nat \<Rightarrow> jsvalue \<times> nat" where
  "count_calls v n = (v, Suc n)"

section \<open>Evaluation\<close>

lemma digits_small: "n < 10 \<Longrightarrow> digits n = [digit_char n]"
  by (subst digits.simps) simp

lemma digits_large: "\<not> n < 10 \<Longrightarrow> digits n = digits (n div 10) @ [digit_char (n mod 10)]"
  by (subst digits.simps) simp

lemmas eval_digits = digits_small digits_large digit_char_def

lemmas eval_date = toUTCString_def utc_text_def YearMonthDay_def civil_of_era_def
  civil_of_year_def civil_of_month_def pad_def eval_digits new_Date_def

lemma Date_0_text: "toUTCString (new_Date 0) = ''Thu, 01 Jan 1970 00:00:00 GMT''"
  by (simp add: eval_date)

lemma read_digits_eval:
  "read_digits ''2023'' = Some 2023" "read_digits ''11'' = Some 11" "read_digits ''14'' = Some 14"
  "read_digits ''22'' = Some 22" "read_digits ''13'' = Some 13" "read_digits ''20'' = Some 20"
  "read_digits ''123'' = Some 123"
  by (simp_all add: read_digits_def is_digit_def digits_value_def digit_val_def)

lemma iso_time_eval: "iso_time 2023 11 14 22 13 20 123 = Date 1700000000123"
  apply (subst iso_time_def)
  apply (simp add: days_from_civil_def days_of_era_def)
  apply (simp add: YearMonthDay_def civil_of_era_def civil_of_year_def civil_of_month_def
      new_Date_def)
  done

lemma Date_parse_iso_example:
  "Date_parse iso_host ''2023-11-14T22:13:20.123Z'' = Date 1700000000123"
  by (simp add: iso_host_def Date_parse_iso_def read_digits_eval iso_time_eval)

lemma Date_1700000000123_text:
  "toUTCString (Date 1700000000123) = ''Tue, 14 Nov 2023 22:13:20 GMT''"
  by (simp add: eval_date)

lemma sample_world_fields [simp]:
  "static_ttl sample_world = None" "now sample_world = 1000000"
  "cookie sample_world = ''a=1; k=; b=false; n=null''"
  by (simp_all add: sample_world_def)

lemma get_sample_a: "Cookie_get sample_world ''a'' (Value Null) = Some (Num 1)"
  by code_simp

section \<open>What \<^verbatim>\<open>set\<close> returns, assigns and leaves in the attributes\<close>

lemma Cookie_set_outcome:
  "outcome (Cookie_set h w key val a) =
     (if sameSite a = Some SameSite_None \<and> secure a \<noteq> Some True
      then Inl (Error secure_message)
      else Inr (key_value key val @ expires_segment (resolved_expires h w a) @ scope_segments a))"
  by (simp add: Cookie_set_def Let_def)

lemma Cookie_set_assigned:
  "assigned (Cookie_set h w key val a) =
     (if sameSite a = Some SameSite_None \<and> secure a \<noteq> Some True
      then []
      else [key_value key val @ expires_segment (resolved_expires h w a) @ scope_segments a])"
  by (simp add: Cookie_set_def Let_def)

lemma Cookie_set_attributes_after:
  "attributes_after (Cookie_set h w key val a) =
     a\<lparr>ttl := resolved_ttl w a, expires := map_option Date_object (resolved_expires h w a)\<rparr>"
  by (simp add: Cookie_set_def Let_def)

lemma resolved_expires_ttl:
  "resolved_ttl w a = Some t \<Longrightarrow> t \<noteq> 0 \<Longrightarrow>
     resolved_expires h w a = Some (new_Date (now w + t * 1000))"
  by (simp add: resolved_expires_def truthy_number_def)

lemma resolved_expires_no_ttl:
  "resolved_ttl w a = None \<or> resolved_ttl w a = Some 0 \<Longrightarrow>
     resolved_expires h w a = Cookie_expires h (expires a)"
  by (auto simp add: resolved_expires_def truthy_number_def)

lemma Date_1060000_text: "toUTCString (new_Date 1060000) = ''Thu, 01 Jan 1970 00:17:40 GMT''"
  by (simp add: eval_date)

lemma Date_1000000_text: "toUTCString (new_Date 1000000) = ''Thu, 01 Jan 1970 00:16:40 GMT''"
  by (simp add: eval_date)

lemma Date_5000_text: "toUTCString (Date 5000) = ''Thu, 01 Jan 1970 00:00:05 GMT''"
  by (simp add: eval_date)

lemmas eval_set = Cookie_set_outcome Cookie_set_assigned resolved_expires_def resolved_ttl_def
  truthy_number_def truthy_string_def key_value_def expires_segment_def scope_segments_def
  no_attributes_def sample_world_def Cookie_ttl_def Boolean_toString_def

section \<open>\<^verbatim>\<open>set\<close>: the SameSite rule\<close>

lemma sublist_in_scope:
  "sameSite a = Some SameSite_None \<Longrightarrow>
     sublist ''SameSite=None'' (pre @ scope_segments a) \<and> sublist ''Secure'' (pre @ scope_segments a)"
proof -
  assume n: "sameSite a = Some SameSite_None"
  define p where "p = pre @ (if truthy_string (path a) then ''; path='' @ the (path a) else [])
     @ (if truthy_string (domain a) then ''; domain='' @ the (domain a) else [])"
  have eq: "pre @ scope_segments a = p @ ''; SameSite=None; Secure''"
    using n by (simp add: scope_segments_def p_def)
  have "pre @ scope_segments a = (p @ ''; '') @ ''SameSite=None'' @ ''; Secure''"
    by (simp add: eq)
  then have 1: "sublist ''SameSite=None'' (pre @ scope_segments a)"
    unfolding sublist_def by blast
  have "pre @ scope_segments a = (p @ ''; SameSite=None; '') @ ''Secure'' @ []"
    by (simp add: eq)
  then have 2: "sublist ''Secure'' (pre @ scope_segments a)"
    unfolding sublist_def by blast
  from 1 2 show ?thesis ..
qed

text \<open>
  Claim C1. When \<^verbatim>\<open>sameSite\<close> is \<^verbatim>\<open>None\<close> and \<^verbatim>\<open>secure\<close> is not \<^verbatim>\<open>true\<close>,
  \<^verbatim>\<open>set\<close> throws the validation error and assigns nothing to \<^verbatim>\<open>document.cookie\<close>,
  whatever the key, the value and the other attributes are. When \<^verbatim>\<open>secure\<close> is
  \<^verbatim>\<open>true\<close>, \<^verbatim>\<open>set\<close> returns the formatted string, assigns it, and the string
  contains both \<^verbatim>\<open>SameSite=None\<close> and \<^verbatim>\<open>Secure\<close>.
\<close>

theorem set_sameSite_None_needs_secure:
  "sameSite a = Some SameSite_None \<Longrightarrow>
     (secure a \<noteq> Some True \<longrightarrow>
        outcome (Cookie_set h w key val a) = Inl (Error secure_message)
        \<and> assigned (Cookie_set h w key val a) = [])
     \<and> (secure a = Some True \<longrightarrow>
        (\<exists>c. outcome (Cookie_set h w key val a) = Inr c
           \<and> assigned (Cookie_set h w key val a) = [c]
           \<and> sublist ''SameSite=None'' c \<and> sublist ''Secure'' c))"
  using sublist_in_scope [of a "key_value key val @ expires_segment (resolved_expires h w a)"]
  by (simp add: Cookie_set_def Let_def)

theorem set_sameSite_None_needs_secure_witness:
  "outcome (Cookie_set iso_host sample_world ''k'' (Str ''v'')
      (no_attributes\<lparr>sameSite := Some SameSite_None\<rparr>)) = Inl (Error secure_message)
   \<and> assigned (Cookie_set iso_host sample_world ''k'' (Str ''v'')
      (no_attributes\<lparr>sameSite := Some SameSite_None\<rparr>)) = []
   \<and> (\<exists>c. outcome (Cookie_set iso_host sample_world ''k'' (Str ''v'')
        (no_attributes\<lparr>sameSite := Some SameSite_None, secure := Some True\<rparr>)) = Inr c
      \<and> assigned (Cookie_set iso_host sample_world ''k'' (Str ''v'')
        (no_attributes\<lparr>sameSite := Some SameSite_None, secure := Some True\<rparr>)) = [c]
      \<and> sublist ''SameSite=None'' c \<and> sublist ''Secure'' c)"
  using set_sameSite_None_needs_secure
      [of "no_attributes\<lparr>sameSite := Some SameSite_None\<rparr>" iso_host sample_world "''k''" "Str ''v''"]
    set_sameSite_None_needs_secure
      [of "no_attributes\<lparr>sameSite := Some SameSite_None, secure := Some True\<rparr>"
          iso_host sample_world "''k''" "Str ''v''"]
  by (simp add: no_attributes_def)

section \<open>\<^verbatim>\<open>set\<close>: time-to-live against \<^verbatim>\<open>expires\<close>\<close>

text \<open>
  Claim C2, as amended. When the attributes carry a \<^verbatim>\<open>ttl\<close> other than zero, or carry
  none while \<^verbatim>\<open>Cookie.#ttl\<close> holds a value other than zero, the \<^verbatim>\<open>expires\<close> segment
  of the string \<^verbatim>\<open>set\<close> returns is the clock plus that many seconds, whatever
  \<^verbatim>\<open>expires\<close> the attributes supply.
\<close>

theorem set_ttl_overrides_expires:
  "ttl a = Some t \<or> (ttl a = None \<and> static_ttl w = Some t) \<Longrightarrow> t \<noteq> 0 \<Longrightarrow>
     outcome (Cookie_set h w key val a) =
       (if sameSite a = Some SameSite_None \<and> secure a \<noteq> Some True
        then Inl (Error secure_message)
        else Inr (key_value key val @ ''; expires='' @ toUTCString (new_Date (now w + t * 1000))
                  @ scope_segments a))"
proof -
  assume "ttl a = Some t \<or> (ttl a = None \<and> static_ttl w = Some t)" and nz: "t \<noteq> 0"
  then have "resolved_ttl w a = Some t"
    by (auto simp add: resolved_ttl_def)
  with nz have "resolved_expires h w a = Some (new_Date (now w + t * 1000))"
    by (simp add: resolved_expires_ttl)
  then show ?thesis
    by (simp add: Cookie_set_outcome expires_segment_def)
qed

theorem set_ttl_overrides_expires_witness:
  "outcome (Cookie_set iso_host sample_world ''k'' (Str ''v'')
      (no_attributes\<lparr>ttl := Some 60, expires := Some (Date_object (Date 5000))\<rparr>))
     = Inr ''k=v; expires=Thu, 01 Jan 1970 00:17:40 GMT''
   \<and> outcome (Cookie_set iso_host (Cookie_ttl (Some 60) sample_world) ''k'' (Str ''v'')
      (no_attributes\<lparr>expires := Some (Date_object (Date 5000))\<rparr>))
     = Inr ''k=v; expires=Thu, 01 Jan 1970 00:17:40 GMT''"
  using set_ttl_overrides_expires
      [of "no_attributes\<lparr>ttl := Some 60, expires := Some (Date_object (Date 5000))\<rparr>" 60
          sample_world iso_host "''k''" "Str ''v''"]
    set_ttl_overrides_expires
      [of "no_attributes\<lparr>expires := Some (Date_object (Date 5000))\<rparr>" 60
          "Cookie_ttl (Some 60) sample_world" iso_host "''k''" "Str ''v''"]
  by (simp add: no_attributes_def sample_world_def Cookie_ttl_def key_value_def
        scope_segments_def truthy_string_def Date_1060000_text)

text \<open>
  Claim C2 as stated fails for a default of zero, which is not \<^verbatim>\<open>null\<close>: after
  \<^verbatim>\<open>Cookie.ttl(0)\<close> the supplied \<^verbatim>\<open>expires\<close>, 5 s after the epoch, is the one written,
  not the clock, which stands at 1000 s.
\<close>

theorem zero_default_ttl_keeps_expires:
  "outcome (Cookie_set iso_host (Cookie_ttl (Some 0) sample_world) ''k'' (Str ''v'')
      (no_attributes\<lparr>expires := Some (Date_object (Date 5000))\<rparr>))
     = Inr ''k=v; expires=Thu, 01 Jan 1970 00:00:05 GMT''
   \<and> toUTCString (new_Date (now sample_world + 0 * 1000)) = ''Thu, 01 Jan 1970 00:16:40 GMT''"
  by (simp add: eval_set Date_5000_text Date_1000000_text)

section \<open>\<^verbatim>\<open>remove\<close>\<close>

text \<open>
  Claim C3 at \<^verbatim>\<open>Cookie.ttl(60); Cookie.remove('k')\<close>. With a default time-to-live of
  60 s and the clock at 1000 s, \<^verbatim>\<open>remove\<close> assigns the key with an empty value and
  an expiration at 1060 s, a minute ahead of the clock, and not in the past.
\<close>

theorem remove_under_default_ttl:
  "Cookie_remove iso_host (Cookie_ttl (Some 60) sample_world) ''k'' None
     = [''k=; expires=Thu, 01 Jan 1970 00:17:40 GMT'']
   \<and> toUTCString (new_Date (now sample_world)) = ''Thu, 01 Jan 1970 00:16:40 GMT''"
  by (simp add: Cookie_remove_def eval_set Date_1060000_text Date_1000000_text)

text \<open>
  Without a default time-to-live, or with a default of zero, \<^verbatim>\<open>remove\<close> writes the
  epoch; with any other default it writes the clock plus the default.
\<close>

lemma remove_without_default_ttl:
  "static_ttl w = None \<or> static_ttl w = Some 0 \<Longrightarrow>
     Cookie_remove h w key p =
       [key @ ''=; expires=Thu, 01 Jan 1970 00:00:00 GMT''
        @ (if truthy_string p then ''; path='' @ the p else [])]"
  by (auto simp add: Cookie_remove_def eval_set Date_0_text)

lemma remove_with_default_ttl:
  "static_ttl w = Some t \<Longrightarrow> t \<noteq> 0 \<Longrightarrow>
     Cookie_remove h w key p =
       [key @ ''=; expires='' @ toUTCString (new_Date (now w + t * 1000))
        @ (if truthy_string p then ''; path='' @ the p else [])]"
  by (auto simp add: Cookie_remove_def eval_set)

section \<open>\<^verbatim>\<open>set\<close>: a value that cannot be serialised\<close>

lemma stringify_throws:
  "JSON_stringify v = Throws \<Longrightarrow> Cookie_stringify v = [] \<and> v \<noteq> Null \<and> v \<noteq> Undefined"
  by (cases v) (simp_all add: JSON_stringify_def)

text \<open>
  Claim C4, as amended. For a value on which \<^verbatim>\<open>JSON.stringify\<close> throws, \<^verbatim>\<open>#stringify\<close>
  returns the empty string and \<^verbatim>\<open>set\<close> behaves exactly as for the empty string: the
  entry starts with the key followed by the equals sign and an empty value, and
  \<^verbatim>\<open>set\<close> throws only under the SameSite rule.
\<close>

theorem set_unserializable_value:
  "JSON_stringify v = Throws \<Longrightarrow>
     Cookie_stringify v = []
     \<and> key_value key v = key @ ''=''
     \<and> Cookie_set h w key v a = Cookie_set h w key (Str []) a
     \<and> isl (outcome (Cookie_set h w key v a))
         = (sameSite a = Some SameSite_None \<and> secure a \<noteq> Some True)"
proof -
  assume "JSON_stringify v = Throws"
  then have s: "Cookie_stringify v = []" and n: "v \<noteq> Null" "v \<noteq> Undefined"
    using stringify_throws by blast+
  then have k: "key_value key v = key @ ''=''"
    by (simp add: key_value_def)
  then have "key_value key v = key_value key (Str [])"
    by (simp add: key_value_def)
  then have "Cookie_set h w key v a = Cookie_set h w key (Str []) a"
    by (simp add: Cookie_set_def)
  with s k show ?thesis
    by (simp add: Cookie_set_outcome)
qed

theorem set_unserializable_value_witness:
  "Cookie_stringify (Arr [Num 1, Circular]) = []
   \<and> key_value ''k'' (Arr [Num 1, Circular]) = ''k=''
   \<and> Cookie_set iso_host sample_world ''k'' (Arr [Num 1, Circular]) no_attributes
       = Cookie_set iso_host sample_world ''k'' (Str []) no_attributes
   \<and> \<not> isl (outcome (Cookie_set iso_host sample_world ''k'' (Arr [Num 1, Circular]) no_attributes))"
  using set_unserializable_value [of "Arr [Num 1, Circular]" "''k''" iso_host sample_world no_attributes]
  by (auto simp add: JSON_stringify_def no_attributes_def Number_toString_def eval_digits)

text \<open>
  Claim C4 as stated fails: a circular value is written as \<^verbatim>\<open>k=\<close>, with the equals
  sign, while \<^verbatim>\<open>null\<close> and \<^verbatim>\<open>undefined\<close> are written as the bare key \<^verbatim>\<open>k\<close>.
\<close>

theorem circular_value_keeps_equals_sign:
  "assigned (Cookie_set iso_host sample_world ''k'' Circular no_attributes) = [''k='']
   \<and> assigned (Cookie_set iso_host sample_world ''k'' Null no_attributes) = [''k'']
   \<and> assigned (Cookie_set iso_host sample_world ''k'' Undefined no_attributes) = [''k'']"
  by (simp add: eval_set JSON_stringify_def)

section \<open>The default time-to-live\<close>

lemma Cookie_ttl_fields [simp]:
  "static_ttl (Cookie_ttl v w) = v" "now (Cookie_ttl v w) = now w" "cookie (Cookie_ttl v w) = cookie w"
  by (simp_all add: Cookie_ttl_def)

lemma Cookie_get_Cookie_ttl [simp]: "Cookie_get (Cookie_ttl v w) key fb = Cookie_get w key fb"
  by (simp add: Cookie_get_def)

lemma Cookie_set_per_call_ttl:
  "ttl a = Some m \<Longrightarrow> Cookie_set h (Cookie_ttl d w) key val a = Cookie_set h w key val a"
  by (simp add: Cookie_set_def resolved_expires_def resolved_ttl_def)

lemma scope_segments_path_only [simp]:
  "scope_segments (no_attributes\<lparr>ttl := t, path := p\<rparr>)
     = (if truthy_string p then ''; path='' @ the p else [])"
  by (simp add: scope_segments_def no_attributes_def truthy_string_def)

lemma Cookie_touch_found:
  "Cookie_get w key (Value Null) = Some v \<Longrightarrow> v \<noteq> Null \<Longrightarrow>
     Cookie_touch h w key t p =
       Some [key_value key v
        @ expires_segment (resolved_expires h w
            (no_attributes\<lparr>ttl := (case t of None \<Rightarrow> static_ttl w | Some x \<Rightarrow> Some x), path := p\<rparr>))
        @ (if truthy_string p then ''; path='' @ the p else [])]"
  by (simp add: Cookie_touch_def Cookie_set_assigned) (simp add: no_attributes_def)

text \<open>
  Claim C9, as amended. After \<^verbatim>\<open>Cookie.ttl(N)\<close> with \<open>N\<close> other than zero: a \<^verbatim>\<open>set\<close>
  without a \<^verbatim>\<open>ttl\<close> of its own writes an expiration \<open>N\<close> seconds after the clock; so
  does a \<^verbatim>\<open>touch\<close> without a \<^verbatim>\<open>ttl\<close> of its own, when \<^verbatim>\<open>get\<close> finds a value other
  than \<^verbatim>\<open>null\<close> under the key; a \<^verbatim>\<open>set\<close> or \<^verbatim>\<open>touch\<close> with its own \<^verbatim>\<open>ttl\<close> does
  what it does with no default at all. After \<^verbatim>\<open>Cookie.ttl(null)\<close>, a \<^verbatim>\<open>set\<close> with
  neither \<^verbatim>\<open>ttl\<close> nor \<^verbatim>\<open>expires\<close> writes no \<^verbatim>\<open>expires\<close> segment.
\<close>

theorem default_ttl_fallback:
  "N \<noteq> 0 \<Longrightarrow>
     (ttl a = None \<longrightarrow>
        outcome (Cookie_set h (Cookie_ttl (Some N) w) key val a) =
          (if sameSite a = Some SameSite_None \<and> secure a \<noteq> Some True
           then Inl (Error secure_message)
           else Inr (key_value key val @ ''; expires='' @ toUTCString (new_Date (now w + N * 1000))
                     @ scope_segments a)))
     \<and> (Cookie_get w key' (Value Null) = Some v \<and> v \<noteq> Null \<longrightarrow>
        Cookie_touch h (Cookie_ttl (Some N) w) key' None p =
          Some [key_value key' v
           @ ''; expires='' @ toUTCString (new_Date (now w + N * 1000))
           @ (if truthy_string p then ''; path='' @ the p else [])])
     \<and> (ttl a = Some M \<longrightarrow>
        Cookie_set h (Cookie_ttl (Some N) w) key val a = Cookie_set h (Cookie_ttl None w) key val a)
     \<and> Cookie_touch h (Cookie_ttl (Some N) w) key' (Some M) p
         = Cookie_touch h (Cookie_ttl None w) key' (Some M) p
     \<and> (ttl a = None \<and> expires a = None \<longrightarrow>
        outcome (Cookie_set h (Cookie_ttl None w) key val a) =
          (if sameSite a = Some SameSite_None \<and> secure a \<noteq> Some True
           then Inl (Error secure_message)
           else Inr (key_value key val @ scope_segments a)))"
proof -
  assume nz: "N \<noteq> 0"
  have 1: "ttl a = None \<longrightarrow>
        outcome (Cookie_set h (Cookie_ttl (Some N) w) key val a) =
          (if sameSite a = Some SameSite_None \<and> secure a \<noteq> Some True
           then Inl (Error secure_message)
           else Inr (key_value key val @ ''; expires='' @ toUTCString (new_Date (now w + N * 1000))
                     @ scope_segments a))"
    using nz
    by (simp add: Cookie_set_outcome resolved_expires_def resolved_ttl_def truthy_number_def
          expires_segment_def)
  have 2: "Cookie_get w key' (Value Null) = Some v \<and> v \<noteq> Null \<longrightarrow>
        Cookie_touch h (Cookie_ttl (Some N) w) key' None p =
          Some [key_value key' v
           @ ''; expires='' @ toUTCString (new_Date (now w + N * 1000))
           @ (if truthy_string p then ''; path='' @ the p else [])]"
    using nz
    by (simp add: Cookie_touch_found resolved_expires_def resolved_ttl_def truthy_number_def
          expires_segment_def)
  have 3: "ttl a = Some M \<longrightarrow>
        Cookie_set h (Cookie_ttl (Some N) w) key val a = Cookie_set h (Cookie_ttl None w) key val a"
    by (simp add: Cookie_set_per_call_ttl)
  have 4: "Cookie_touch h (Cookie_ttl (Some N) w) key' (Some M) p
         = Cookie_touch h (Cookie_ttl None w) key' (Some M) p"
    by (simp add: Cookie_touch_def Cookie_set_per_call_ttl split: option.split)
  have 5: "ttl a = None \<and> expires a = None \<longrightarrow>
        outcome (Cookie_set h (Cookie_ttl None w) key val a) =
          (if sameSite a = Some SameSite_None \<and> secure a \<noteq> Some True
           then Inl (Error secure_message)
           else Inr (key_value key val @ scope_segments a))"
    by (simp add: Cookie_set_outcome resolved_expires_def resolved_ttl_def truthy_number_def
          expires_segment_def)
  from 1 2 3 4 5 show ?thesis by blast
qed


theorem default_ttl_fallback_witness:
  "outcome (Cookie_set iso_host (Cookie_ttl (Some 60) sample_world) ''k'' (Str ''v'') no_attributes)
     = Inr ''k=v; expires=Thu, 01 Jan 1970 00:17:40 GMT''
   \<and> Cookie_touch iso_host (Cookie_ttl (Some 60) sample_world) ''a'' None (Some ''/'')
     = Some [''a=1; expires=Thu, 01 Jan 1970 00:17:40 GMT; path=/'']
   \<and> Cookie_set iso_host (Cookie_ttl (Some 60) sample_world) ''k'' (Str ''v'')
       (no_attributes\<lparr>ttl := Some 30\<rparr>)
     = Cookie_set iso_host (Cookie_ttl None sample_world) ''k'' (Str ''v'')
       (no_attributes\<lparr>ttl := Some 30\<rparr>)
   \<and> Cookie_touch iso_host (Cookie_ttl (Some 60) sample_world) ''a'' (Some 30) (Some ''/'')
     = Cookie_touch iso_host (Cookie_ttl None sample_world) ''a'' (Some 30) (Some ''/'')
   \<and> outcome (Cookie_set iso_host (Cookie_ttl None sample_world) ''k'' (Str ''v'') no_attributes)
     = Inr ''k=v''"
  using default_ttl_fallback
      [where N = 60 and a = no_attributes and h = iso_host and w = sample_world and key = "''k''"
         and val = "Str ''v''" and key' = "''a''" and p = "Some ''/''" and M = 30 and v = "Num 1"]
    default_ttl_fallback
      [where N = 60 and a = "no_attributes\<lparr>ttl := Some 30\<rparr>" and h = iso_host
         and w = sample_world and key = "''k''" and val = "Str ''v''" and key' = "''a''"
         and p = "Some ''/''" and M = 30 and v = "Num 1"]
  by (simp add: get_sample_a no_attributes_def key_value_def scope_segments_def truthy_string_def
        Number_toString_def eval_digits Date_1060000_text)

text \<open>
  Claim C9 as stated fails at \<open>N = 0\<close>: after \<^verbatim>\<open>Cookie.ttl(0)\<close> a \<^verbatim>\<open>set\<close> without
  \<^verbatim>\<open>ttl\<close> writes no expiration at all.
\<close>

theorem zero_default_ttl_sets_no_expiry:
  "outcome (Cookie_set iso_host (Cookie_ttl (Some 0) sample_world) ''k'' (Str ''v'') no_attributes)
     = Inr ''k=v''"
  by (simp add: eval_set)

section \<open>\<^verbatim>\<open>set\<close> changes the attributes it is given\<close>

text \<open>
  Claim C10. \<^verbatim>\<open>set\<close> writes into the caller's attributes object: \<^verbatim>\<open>ttl\<close> becomes
  the caller's \<^verbatim>\<open>ttl\<close> or, when that is absent, \<^verbatim>\<open>Cookie.#ttl\<close>; \<^verbatim>\<open>expires\<close>
  becomes the resolved \<^verbatim>\<open>Date\<close> or absent, never a string; the other properties
  stay. An object
  that took a default of \<open>N\<close> seconds in one call carries it into any later call,
  whatever the default is by then.
\<close>

theorem set_mutates_attributes:
  "ttl (attributes_after (Cookie_set h w key val a))
      = (case ttl a of None \<Rightarrow> static_ttl w | Some t \<Rightarrow> Some t)
   \<and> expires (attributes_after (Cookie_set h w key val a))
      = map_option Date_object (resolved_expires h w a)
   \<and> (\<forall>s. expires (attributes_after (Cookie_set h w key val a)) \<noteq> Some (Date_string s))
   \<and> path (attributes_after (Cookie_set h w key val a)) = path a
   \<and> domain (attributes_after (Cookie_set h w key val a)) = domain a
   \<and> sameSite (attributes_after (Cookie_set h w key val a)) = sameSite a
   \<and> secure (attributes_after (Cookie_set h w key val a)) = secure a
   \<and> (ttl a = None \<and> static_ttl w = Some N \<and> N \<noteq> 0 \<longrightarrow>
        outcome (Cookie_set h' w' key' val' (attributes_after (Cookie_set h w key val a))) =
          (if sameSite a = Some SameSite_None \<and> secure a \<noteq> Some True
           then Inl (Error secure_message)
           else Inr (key_value key' val' @ ''; expires=''
                     @ toUTCString (new_Date (now w' + N * 1000)) @ scope_segments a)))"
  by (auto simp add: Cookie_set_outcome Cookie_set_attributes_after resolved_ttl_def
        resolved_expires_def truthy_number_def expires_segment_def scope_segments_def)

theorem set_mutates_attributes_witness:
  "attributes_after (Cookie_set iso_host (Cookie_ttl (Some 60) sample_world) ''k'' (Str ''v'')
       (no_attributes\<lparr>path := Some ''/''\<rparr>))
     = no_attributes\<lparr>ttl := Some 60, expires := Some (Date_object (Date 1060000)),
         path := Some ''/''\<rparr>
   \<and> outcome (Cookie_set iso_host sample_world ''j'' (Num 2)
       (attributes_after (Cookie_set iso_host (Cookie_ttl (Some 60) sample_world) ''k'' (Str ''v'')
          (no_attributes\<lparr>path := Some ''/''\<rparr>))))
     = Inr ''j=2; expires=Thu, 01 Jan 1970 00:17:40 GMT; path=/''
   \<and> attributes_after (Cookie_set iso_host sample_world ''k'' (Str ''v'')
       (no_attributes\<lparr>expires := Some (Date_string ''2023-11-14T22:13:20.123Z'')\<rparr>))
     = no_attributes\<lparr>expires := Some (Date_object (Date 1700000000123))\<rparr>"
  using set_mutates_attributes
      [where h = iso_host and w = "Cookie_ttl (Some 60) sample_world" and key = "''k''"
         and val = "Str ''v''" and a = "no_attributes\<lparr>path := Some ''/''\<rparr>" and N = 60
         and h' = iso_host and w' = sample_world and key' = "''j''" and val' = "Num 2"]
    set_mutates_attributes
      [where h = iso_host and w = sample_world and key = "''k''" and val = "Str ''v''"
         and a = "no_attributes\<lparr>expires := Some (Date_string ''2023-11-14T22:13:20.123Z'')\<rparr>"]
  by (simp add: no_attributes_def key_value_def scope_segments_def truthy_string_def
        Number_toString_def eval_digits Date_1060000_text Date_parse_iso_example
        resolved_expires_def resolved_ttl_def truthy_number_def
        Cookie_set_attributes_after) (simp add: new_Date_def)

section \<open>\<^verbatim>\<open>get\<close>\<close>

lemma JSON_parse_empty: "JSON_parse [] = SyntaxError"
  by (simp add: JSON_parse_def skip_ws_def)

lemma JSON_parse_false: "JSON_parse ''false'' = Read (Bool False)"
  by code_simp

lemma JSON_parse_0: "JSON_parse ''0'' = Read (Num 0)"
  by code_simp

lemma match_key_entry:
  "CHR '';'' \<notin> set v \<Longrightarrow> rest = [] \<or> hd rest = CHR '';'' \<Longrightarrow>
     match_key key (key @ ''='' @ v @ rest) = Some v"
  by (cases rest) (auto simp add: match_key_def takeWhile_tail)

lemma exec_cookie_first_entry:
  "CHR '';'' \<notin> set v \<Longrightarrow> rest = [] \<or> hd rest = CHR '';'' \<Longrightarrow>
     exec_cookie key (key @ ''='' @ v @ rest) = Some v"
  using match_key_entry [of v rest key] by (simp add: exec_cookie_def)

lemma Cookie_get_absent:
  "exec_cookie key (cookie w) = None \<Longrightarrow> Cookie_get w key (Value Null) = Some Null"
  by (simp add: Cookie_get_def resolve_fallback_def)

text \<open>
  Claim C6, as amended. When the pattern of \<^verbatim>\<open>get\<close> finds the key with an empty raw
  value, as in an entry \<^verbatim>\<open>key=\<close>, \<^verbatim>\<open>get\<close> returns the empty string, whatever the
  fallback is: \<^verbatim>\<open>JSON.parse\<close> throws on the empty text and the raw text is returned.
\<close>

theorem get_empty_raw_value:
  "exec_cookie key (cookie w) = Some [] \<Longrightarrow> Cookie_get w key fb = Some (Str [])"
  by (simp add: Cookie_get_def decode_def JSON_parse_empty)

theorem get_empty_raw_value_witness:
  "exec_cookie ''k'' (cookie sample_world) = Some []
   \<and> Cookie_get sample_world ''k'' (Value (Str ''fallback'')) = Some (Str [])"
proof -
  have e: "exec_cookie ''k'' (cookie sample_world) = Some []"
    by code_simp
  from e get_empty_raw_value [OF e] show ?thesis by simp
qed

text \<open>
  Claim C6 as stated fails: with \<^verbatim>\<open>document.cookie\<close> reading \<^verbatim>\<open>k=\<close>, \<^verbatim>\<open>get\<close>
  returns the empty string, not the fallback and not \<^verbatim>\<open>null\<close>.
\<close>

theorem get_of_empty_entry_is_empty_string:
  "Cookie_get \<lparr>static_ttl = None, now = 0, cookie = ''k=''\<rparr> ''k'' (Value (Str ''fallback''))
     = Some (Str [])
   \<and> Cookie_get \<lparr>static_ttl = None, now = 0, cookie = ''k=''\<rparr> ''k'' (Value Null) = Some (Str [])"
  by code_simp

section \<open>\<^verbatim>\<open>remember\<close>\<close>

text \<open>
  Claim C7, as amended. When \<^verbatim>\<open>get\<close> yields \<^verbatim>\<open>null\<close> for the key, \<^verbatim>\<open>remember\<close> runs
  the callback once (the caller's state is the one the callback leaves), hands its
  result to \<^verbatim>\<open>set\<close> with the given attributes, and returns what \<^verbatim>\<open>set\<close> returns:
  the formatted entry, which is also the string assigned, or the validation error,
  with nothing assigned. When \<^verbatim>\<open>get\<close> yields another value, \<^verbatim>\<open>remember\<close> returns
  it, assigns nothing and leaves the caller's state alone.
\<close>

theorem remember_get_or_store:
  "(Cookie_get w key (Value Null) = Some Null \<longrightarrow>
      Cookie_remember h w key callback a s =
        Some (if sameSite a = Some SameSite_None \<and> secure a \<noteq> Some True
              then \<lparr>returned = Inl (Error secure_message), stored = []\<rparr>
              else \<lparr>returned = Inr (Str (key_value key (fst (callback s))
                                @ expires_segment (resolved_expires h w a) @ scope_segments a)),
                    stored = [key_value key (fst (callback s))
                              @ expires_segment (resolved_expires h w a) @ scope_segments a]\<rparr>,
              snd (callback s)))
   \<and> (Cookie_get w key (Value Null) = Some v \<and> v \<noteq> Null \<longrightarrow>
      Cookie_remember h w key callback a s = Some (\<lparr>returned = Inr v, stored = []\<rparr>, s))"
  by (auto simp add: Cookie_remember_def Let_def Cookie_set_outcome Cookie_set_assigned
        split: prod.split)

theorem remember_get_or_store_witness:
  "Cookie_remember iso_host sample_world ''z'' (count_calls (Str ''x'')) no_attributes 0
     = Some (\<lparr>returned = Inr (Str ''z=x''), stored = [''z=x'']\<rparr>, 1)
   \<and> Cookie_remember iso_host sample_world ''a'' (count_calls (Str ''y'')) no_attributes 0
     = Some (\<lparr>returned = Inr (Num 1), stored = []\<rparr>, 0)"
proof -
  have z: "Cookie_get sample_world ''z'' (Value Null) = Some Null"
    by code_simp
  have e: "resolved_expires iso_host sample_world no_attributes = None"
    by (simp add: resolved_expires_def resolved_ttl_def truthy_number_def no_attributes_def)
  have 1: "Cookie_remember iso_host sample_world ''z'' (count_calls (Str ''x'')) no_attributes 0
     = Some (\<lparr>returned = Inr (Str ''z=x''), stored = [''z=x'']\<rparr>, 1)"
    using remember_get_or_store
      [where w = sample_world and key = "''z''" and h = iso_host
         and callback = "count_calls (Str ''x'')" and a = no_attributes and s = 0] z e
    by (simp add: count_calls_def key_value_def expires_segment_def
          scope_segments_def truthy_string_def no_attributes_def)
  have 2: "Cookie_remember iso_host sample_world ''a'' (count_calls (Str ''y'')) no_attributes 0
     = Some (\<lparr>returned = Inr (Num 1), stored = []\<rparr>, 0)"
    using remember_get_or_store
      [where w = sample_world and key = "''a''" and h = iso_host
         and callback = "count_calls (Str ''y'')" and a = no_attributes and s = 0
         and v = "Num 1"]
    by (simp add: get_sample_a)
  from 1 2 show ?thesis ..
qed

text \<open>
  Claim C7 as stated fails twice. On an empty store \<^verbatim>\<open>remember('k', () => 'x')\<close>
  returns the formatted entry \<^verbatim>\<open>k=x\<close>, not the produced \<^verbatim>\<open>x\<close>. And with the key
  present as \<^verbatim>\<open>k=null\<close>, \<^verbatim>\<open>get\<close> decodes \<^verbatim>\<open>null\<close> and the callback runs.
\<close>

theorem remember_returns_the_entry:
  "Cookie_remember iso_host \<lparr>static_ttl = None, now = 0, cookie = []\<rparr> ''k''
       (count_calls (Str ''x'')) no_attributes 0
     = Some (\<lparr>returned = Inr (Str ''k=x''), stored = [''k=x'']\<rparr>, 1)
   \<and> Cookie_remember iso_host \<lparr>static_ttl = None, now = 0, cookie = ''k=null''\<rparr> ''k''
       (count_calls (Str ''y'')) no_attributes 0
     = Some (\<lparr>returned = Inr (Str ''k=y''), stored = [''k=y'']\<rparr>, 1)"
  by code_simp

section \<open>\<^verbatim>\<open>has\<close>\<close>

text \<open>
  Claim C8. \<^verbatim>\<open>has(key)\<close> is the truthiness of \<^verbatim>\<open>get(key)\<close>. In particular, when the
  store holds under the key what \<^verbatim>\<open>set\<close> writes for the empty string, for
  \<^verbatim>\<open>false\<close> or for \<^verbatim>\<open>0\<close>, \<^verbatim>\<open>get\<close> finds that value and \<^verbatim>\<open>has\<close> is false.
\<close>

theorem has_is_truthy_get:
  "Cookie_has w key = map_option ToBoolean (Cookie_get w key (Value Null))
   \<and> ((v = Str [] \<or> v = Bool False \<or> v = Num 0)
        \<and> exec_cookie key (cookie w) = Some (Cookie_stringify v)
      \<longrightarrow> Cookie_get w key (Value Null) = Some v \<and> Cookie_has w key = Some False)"
  by (auto simp add: Cookie_has_def Cookie_get_def decode_def JSON_parse_empty JSON_parse_false
        JSON_parse_0 Boolean_toString_def Number_toString_def eval_digits)

theorem has_is_truthy_get_witness:
  "exec_cookie ''k'' (cookie sample_world) = Some (Cookie_stringify (Str []))
   \<and> Cookie_get sample_world ''k'' (Value Null) = Some (Str [])
   \<and> Cookie_has sample_world ''k'' = Some False
   \<and> exec_cookie ''b'' (cookie sample_world) = Some (Cookie_stringify (Bool False))
   \<and> Cookie_get sample_world ''b'' (Value Null) = Some (Bool False)
   \<and> Cookie_has sample_world ''b'' = Some False
   \<and> Cookie_has sample_world ''a'' = Some True"
proof -
  have k: "exec_cookie ''k'' (cookie sample_world) = Some (Cookie_stringify (Str []))"
    by code_simp
  have b: "exec_cookie ''b'' (cookie sample_world) = Some (Cookie_stringify (Bool False))"
    by code_simp
  have a: "Cookie_has sample_world ''a'' = Some True"
    using has_is_truthy_get [of sample_world "''a''" Null] by (simp add: get_sample_a)
  from k b a has_is_truthy_get [of sample_world "''k''" "Str []"]
    has_is_truthy_get [of sample_world "''b''" "Bool False"]
  show ?thesis by simp
qed

section \<open>\<^verbatim>\<open>JSON.parse\<close> reads back what \<^verbatim>\<open>JSON.stringify\<close> writes\<close>



















lemma skip_ws_delimiter [simp]:
  "skip_ws (CHR '','' # s) = CHR '','' # s" "skip_ws (CHR '']'' # s) = CHR '']'' # s"
  "skip_ws (CHR ''}'' # s) = CHR ''}'' # s" "skip_ws (CHR '':'' # s) = CHR '':'' # s"
  "skip_ws (dquote # s) = dquote # s"
  by (simp_all add: skip_ws_def is_ws_def dquote_def)






















section \<open>The codec: \<^verbatim>\<open>#stringify\<close> against the decoding of \<^verbatim>\<open>get\<close>\<close>













end
